theory Spec2Isabelle
  imports Main "HOL-Library.Word"
begin

section \<open>Data model of the blockchain service\<close>

text \<open>
  The embedding follows \<^verbatim>\<open>internal/services/blockchain.go\<close> (package services) and the
  three whitelist handlers of \<^verbatim>\<open>internal/handlers/handlers.go\<close>.

  Go values are modelled as follows. A \<^verbatim>\<open>common.Address\<close> (\<^verbatim>\<open>[20]byte\<close>) and a
  \<^verbatim>\<open>common.Hash\<close> are byte lists; \<^verbatim>\<open>*big.Int\<close> is \<open>int\<close>; \<^verbatim>\<open>uint64\<close> is
  \<open>64 word\<close>; a nil-able pointer is an \<open>option\<close>; a Go \<^verbatim>\<open>error\<close> is a value of
  the datatype \<open>error\<close>; a pair of results \<^verbatim>\<open>(x, err)\<close> in which both components
  may be non-nil is a pair of options. A run-time panic (a failed type assertion, an index
  or a slice bound out of range) is the value \<open>Panic\<close> of the type \<open>outcome\<close>.
\<close>

type_synonym byte = "8 word"
type_synonym Address = "byte list"
type_synonym Hash = "byte list"
type_synonym PrivateKey = nat
type_synonym ABI = "string list"

text \<open>\<^verbatim>\<open>common.Address{}\<close>: the zero value of the 20-byte array.\<close>

definition zeroAddress :: Address where
  "zeroAddress = replicate 20 0"

text \<open>
  \<^verbatim>\<open>fmt.Errorf("msg")\<close> is \<open>Errorf ''msg''\<close>; \<^verbatim>\<open>fmt.Errorf("msg: %w", err)\<close> is
  \<open>Wrapf ''msg'' err\<close>. Errors of the client library are values of the same type, chosen
  by the environment.
\<close>

datatype error = Errorf string | Wrapf string error

datatype 'a outcome = Return 'a | Panic string

definition andThen :: "'a outcome \<Rightarrow> ('a \<Rightarrow> 'b outcome) \<Rightarrow> 'b outcome" where
  "andThen m f = (case m of Panic p \<Rightarrow> Panic p | Return x \<Rightarrow> f x)"

text \<open>The dynamically typed values (\<^verbatim>\<open>interface{}\<close>) that cross the ABI boundary.\<close>

datatype val = BigInt int | Bool bool | Addr Address | AddrSlice "Address list"

text \<open>\<^verbatim>\<open>xs[i]\<close> on a slice: a panic when \<open>i\<close> is not below the length.\<close>

definition index :: "'a list \<Rightarrow> nat \<Rightarrow> 'a outcome" where
  "index xs i = (if i < length xs then Return (xs ! i) else Panic ''index out of range'')"

text \<open>The type assertions \<^verbatim>\<open>v.(*big.Int)\<close> and \<^verbatim>\<open>v.(bool)\<close>.\<close>

fun assertBigInt :: "val \<Rightarrow> int outcome" where
  "assertBigInt (BigInt n) = Return n"
| "assertBigInt v = Panic ''interface conversion: not *big.Int''"

fun assertBool :: "val \<Rightarrow> bool outcome" where
  "assertBool (Bool b) = Return b"
| "assertBool v = Panic ''interface conversion: not bool''"

record TransactOpts =
  From :: "PrivateKey option"
  ChainID :: int
  GasLimit :: "64 word"
  GasPrice :: "int option"

record Transaction =
  Hash_of :: Hash

record Receipt =
  Status :: "64 word"
  BlockNumber :: int

text \<open>
  \<^verbatim>\<open>types.Log\<close>. A Go slice expression \<^verbatim>\<open>Data[lo:hi]\<close> is checked against the
  capacity of the slice, not its length, so the bytes of the backing array behind the
  length are part of the model: \<open>Data\<close> holds the \<^verbatim>\<open>len(Data)\<close> bytes of the payload and
  \<open>DataSpare\<close> the \<^verbatim>\<open>cap(Data) - len(Data)\<close> bytes behind them.
\<close>

record Log =
  Topics :: "Hash list"
  Data :: "byte list"
  DataSpare :: "byte list"
  TxHash :: Hash
  LogBlockNumber :: "64 word"

record SaleInfo =
  TokenPrice :: int
  MinPurchase :: int
  MaxPurchase :: int
  MaxSupply :: int
  StartTime :: "64 word"
  EndTime :: "64 word"
  WhitelistRequired :: bool
  TotalSold :: int
  TotalEthRaised :: int
  IsActive :: bool

record PurchaseEvent =
  Buyer :: Address
  TokenAmount :: int
  EthAmount :: int
  Timestamp :: int
  EventTxHash :: Hash
  EventBlockNumber :: "64 word"

record BlockchainService =
  contractAddress :: Address
  tokenAddress :: Address
  privateKey :: "PrivateKey option"
  saleABI :: ABI
  tokenABI :: ABI

text \<open>
  The method names of the two ABI constants of the source (\<^verbatim>\<open>WhitelistSaleABI\<close>,
  \<^verbatim>\<open>WhitelistTokenABI\<close>), as \<^verbatim>\<open>abi.JSON\<close> parses them into \<^verbatim>\<open>Methods\<close>.
\<close>

definition WhitelistSaleABI :: ABI where
  "WhitelistSaleABI = [''saleConfig'']"

definition WhitelistTokenABI :: ABI where
  "WhitelistTokenABI = [''balanceOf'', ''whitelist'', ''updateWhitelist'', ''updateWhitelistBatch'']"

section \<open>The chain client and the libraries, as parameters\<close>

text \<open>
  go-ethereum (\<^verbatim>\<open>ethclient\<close>, \<^verbatim>\<open>bind\<close>, \<^verbatim>\<open>common\<close>, \<^verbatim>\<open>crypto\<close>) and the remote node are
  not part of the repository. Every function of theirs that the service calls is a field
  of the record \<open>chain\<close>, so that each theorem holds for every behaviour of the library
  and the node. A bound contract is created from an address and an ABI and then called,
  hence \<open>Call\<close> and \<open>Transact\<close> receive both.
\<close>

record chain =
  Dial :: "string \<Rightarrow> error option"
  NetworkID :: "error + int"
  SuggestGasPrice :: "error + int"
  NewKeyedTransactorWithChainID :: "PrivateKey option \<Rightarrow> int \<Rightarrow> error + TransactOpts"
  Call :: "Address \<Rightarrow> ABI \<Rightarrow> string \<Rightarrow> val list \<Rightarrow> error + val list"
  Transact :: "Address \<Rightarrow> ABI \<Rightarrow> TransactOpts \<Rightarrow> string \<Rightarrow> val list \<Rightarrow> error + Transaction"
  WaitMined :: "Transaction \<Rightarrow> error + Receipt"
  SubscribeFilterLogs :: "Address \<Rightarrow> error option"
  HexToAddress :: "string \<Rightarrow> Address"
  HexToECDSA :: "string \<Rightarrow> error + PrivateKey"
  BytesToAddress :: "byte list \<Rightarrow> Address"
  SetBytes :: "byte list \<Rightarrow> int"
  Int64 :: "int \<Rightarrow> 64 word"

text \<open>
  What a service operation does to the outside world, in the order it does it: the calls
  to the chain client and the lines it logs.
\<close>

datatype effect =
    RpcNetworkID
  | RpcSuggestGasPrice
  | RpcCall Address string "val list"
  | RpcTransact Address string "val list" TransactOpts
  | RpcWaitMined Transaction
  | Infof string Transaction Receipt
  | Errorf_log string error

section \<open>Construction\<close>

text \<open>
  \<^verbatim>\<open>NewBlockchainService\<close>: an empty address string leaves the zero address. The ABI
  constants of the source always parse, so the two \<^verbatim>\<open>abi.JSON\<close> error branches are not
  reachable. The private key starts nil.
\<close>

definition NewBlockchainService ::
  "chain \<Rightarrow> string \<Rightarrow> string \<Rightarrow> string \<Rightarrow> BlockchainService option \<times> error option" where
  "NewBlockchainService ch rpcURL contractAddr tokenAddr =
    (case Dial ch rpcURL of
       Some err \<Rightarrow> (None, Some (Wrapf ''failed to connect to blockchain'' err))
     | None \<Rightarrow>
        (let contractAddress = (if contractAddr \<noteq> [] then HexToAddress ch contractAddr else zeroAddress);
             tokenAddress = (if tokenAddr \<noteq> [] then HexToAddress ch tokenAddr else zeroAddress)
         in case NetworkID ch of
              Inl err \<Rightarrow> (None, Some (Wrapf ''failed to connect to blockchain network'' err))
            | Inr _ \<Rightarrow>
                (Some \<lparr>contractAddress = contractAddress, tokenAddress = tokenAddress,
                       privateKey = None, saleABI = WhitelistSaleABI,
                       tokenABI = WhitelistTokenABI\<rparr>, None)))"

definition SetPrivateKey ::
  "chain \<Rightarrow> BlockchainService \<Rightarrow> string \<Rightarrow> BlockchainService \<times> error option" where
  "SetPrivateKey ch bs privateKeyHex =
    (if privateKeyHex = [] then (bs, None)
     else case HexToECDSA ch privateKeyHex of
            Inl err \<Rightarrow> (bs, Some (Wrapf ''failed to parse private key'' err))
          | Inr key \<Rightarrow> (bs\<lparr>privateKey := Some key\<rparr>, None))"

section \<open>Reads\<close>

text \<open>\<^verbatim>\<open>callContract\<close>: one read of the sale contract; it returns \<^verbatim>\<open>(result, err)\<close>.\<close>

definition callContract ::
  "BlockchainService \<Rightarrow> chain \<Rightarrow> string \<Rightarrow> (error + val list) \<times> effect list" where
  "callContract bs ch method =
    (Call ch (contractAddress bs) (saleABI bs) method [],
     [RpcCall (contractAddress bs) method []])"

text \<open>
  \<^verbatim>\<open>GetSaleInfo\<close>. The four reads are made in the order of the source and each error
  returns at once. The composite literal at the end evaluates its fields in order; an
  index out of range or a failed type assertion there is a panic.
\<close>

definition GetSaleInfo ::
  "BlockchainService \<Rightarrow> chain \<Rightarrow> (SaleInfo option \<times> error option) outcome \<times> effect list" where
  "GetSaleInfo bs ch =
    (if contractAddress bs = zeroAddress
     then (Return (None, Some (Errorf ''contract address not set'')), [])
     else
      case callContract bs ch ''saleConfig'' of
        (Inl err, t1) \<Rightarrow> (Return (None, Some (Wrapf ''failed to get sale config'' err)), t1)
      | (Inr saleConfig, t1) \<Rightarrow>
      (case callContract bs ch ''totalSold'' of
        (Inl err, t2) \<Rightarrow> (Return (None, Some (Wrapf ''failed to get total sold'' err)), t1 @ t2)
      | (Inr totalSold, t2) \<Rightarrow>
      (case callContract bs ch ''totalEthRaised'' of
        (Inl err, t3) \<Rightarrow>
          (Return (None, Some (Wrapf ''failed to get total ETH raised'' err)), t1 @ t2 @ t3)
      | (Inr totalEthRaised, t3) \<Rightarrow>
      (case callContract bs ch ''isSaleActive'' of
        (Inl err, t4) \<Rightarrow>
          (Return (None, Some (Wrapf ''failed to get sale active status'' err)),
           t1 @ t2 @ t3 @ t4)
      | (Inr isSaleActive, t4) \<Rightarrow>
         (andThen (andThen (index saleConfig 0) assertBigInt) (\<lambda>tokenPrice.
          andThen (andThen (index saleConfig 1) assertBigInt) (\<lambda>minPurchase.
          andThen (andThen (index saleConfig 2) assertBigInt) (\<lambda>maxPurchase.
          andThen (andThen (index saleConfig 3) assertBigInt) (\<lambda>maxSupply.
          andThen (andThen (index saleConfig 4) assertBigInt) (\<lambda>startTime.
          andThen (andThen (index saleConfig 5) assertBigInt) (\<lambda>endTime.
          andThen (andThen (index saleConfig 6) assertBool) (\<lambda>whitelistRequired.
          andThen (andThen (index totalSold 0) assertBigInt) (\<lambda>sold.
          andThen (andThen (index totalEthRaised 0) assertBigInt) (\<lambda>raised.
          andThen (andThen (index isSaleActive 0) assertBool) (\<lambda>active.
            Return (Some \<lparr>TokenPrice = tokenPrice, MinPurchase = minPurchase,
                           MaxPurchase = maxPurchase, MaxSupply = maxSupply,
                           StartTime = Int64 ch startTime, EndTime = Int64 ch endTime,
                           WhitelistRequired = whitelistRequired, TotalSold = sold,
                           TotalEthRaised = raised, IsActive = active\<rparr>, None))))))))))),
          t1 @ t2 @ t3 @ t4)))))"

text \<open>\<^verbatim>\<open>IsWhitelisted\<close>: one read of the token contract's \<^verbatim>\<open>whitelist\<close> mapping.\<close>

definition IsWhitelisted ::
  "BlockchainService \<Rightarrow> chain \<Rightarrow> string \<Rightarrow> string list \<Rightarrow>
     (bool \<times> error option) outcome \<times> effect list" where
  "IsWhitelisted bs ch userAddress merkleProof =
    (if tokenAddress bs = zeroAddress
     then (Return (False, Some (Errorf ''token address not set'')), [])
     else
      (let address = HexToAddress ch userAddress in
       case Call ch (tokenAddress bs) (tokenABI bs) ''whitelist'' [Addr address] of
         Inl err \<Rightarrow>
           (Return (False, Some (Wrapf ''failed to check whitelist status'' err)),
            [RpcCall (tokenAddress bs) ''whitelist'' [Addr address]])
       | Inr result \<Rightarrow>
           (andThen (andThen (index result 0) assertBool) (\<lambda>b. Return (b, None)),
            [RpcCall (tokenAddress bs) ''whitelist'' [Addr address]])))"

section \<open>Transactions\<close>

text \<open>
  \<^verbatim>\<open>executeTransaction\<close> (sale contract): chain id, transactor, gas limit and gas price,
  then \<^verbatim>\<open>Transact\<close>; it returns the transaction as soon as it is submitted.
\<close>

definition executeTransaction ::
  "BlockchainService \<Rightarrow> chain \<Rightarrow> string \<Rightarrow> val list \<Rightarrow>
     (Transaction option \<times> error option) \<times> effect list" where
  "executeTransaction bs ch method params =
    (case NetworkID ch of
       Inl err \<Rightarrow> ((None, Some (Wrapf ''failed to get chain ID'' err)), [RpcNetworkID])
     | Inr chainID \<Rightarrow>
    (case NewKeyedTransactorWithChainID ch (privateKey bs) chainID of
       Inl err \<Rightarrow> ((None, Some (Wrapf ''failed to create transactor'' err)), [RpcNetworkID])
     | Inr auth0 \<Rightarrow>
    (case SuggestGasPrice ch of
       Inl err \<Rightarrow>
         ((None, Some (Wrapf ''failed to get gas price'' err)),
          [RpcNetworkID, RpcSuggestGasPrice])
     | Inr gasPrice \<Rightarrow>
    (let auth = auth0\<lparr>GasLimit := 300000, GasPrice := Some gasPrice\<rparr> in
     case Transact ch (contractAddress bs) (saleABI bs) auth method params of
       Inl err \<Rightarrow>
         ((None, Some (Wrapf ''failed to execute transaction'' err)),
          [RpcNetworkID, RpcSuggestGasPrice,
           RpcTransact (contractAddress bs) method params auth])
     | Inr tx \<Rightarrow>
         ((Some tx, None),
          [RpcNetworkID, RpcSuggestGasPrice,
           RpcTransact (contractAddress bs) method params auth])))))"

text \<open>
  \<^verbatim>\<open>executeTokenTransaction\<close> (token contract): the same steps, a check that the method
  is in the token ABI, and after \<^verbatim>\<open>Transact\<close> the wait for the receipt and the test of
  its status. When the wait fails or the status is 0 the transaction is returned together
  with the error.
\<close>

definition executeTokenTransaction ::
  "BlockchainService \<Rightarrow> chain \<Rightarrow> string \<Rightarrow> val list \<Rightarrow>
     (Transaction option \<times> error option) \<times> effect list" where
  "executeTokenTransaction bs ch method params =
    (case NetworkID ch of
       Inl err \<Rightarrow> ((None, Some (Wrapf ''failed to get chain ID'' err)), [RpcNetworkID])
     | Inr chainID \<Rightarrow>
    (case NewKeyedTransactorWithChainID ch (privateKey bs) chainID of
       Inl err \<Rightarrow> ((None, Some (Wrapf ''failed to create transactor'' err)), [RpcNetworkID])
     | Inr auth0 \<Rightarrow>
    (case SuggestGasPrice ch of
       Inl err \<Rightarrow>
         ((None, Some (Wrapf ''failed to get gas price'' err)),
          [RpcNetworkID, RpcSuggestGasPrice])
     | Inr gasPrice \<Rightarrow>
    (let auth = auth0\<lparr>GasLimit := 300000, GasPrice := Some gasPrice\<rparr> in
     if method \<notin> set (tokenABI bs)
     then ((None, Some (Errorf (''method '' @ method @ '' not found in ABI''))),
           [RpcNetworkID, RpcSuggestGasPrice])
     else
     case Transact ch (tokenAddress bs) (tokenABI bs) auth method params of
       Inl err \<Rightarrow>
         ((None, Some (Wrapf ''failed to execute transaction'' err)),
          [RpcNetworkID, RpcSuggestGasPrice,
           RpcTransact (tokenAddress bs) method params auth])
     | Inr tx \<Rightarrow>
    (case WaitMined ch tx of
       Inl err \<Rightarrow>
         ((Some tx, Some err),
          [RpcNetworkID, RpcSuggestGasPrice,
           RpcTransact (tokenAddress bs) method params auth, RpcWaitMined tx])
     | Inr receipt \<Rightarrow>
         if Status receipt = 0
         then ((Some tx, Some (Errorf ''transaction failed'')),
               [RpcNetworkID, RpcSuggestGasPrice,
                RpcTransact (tokenAddress bs) method params auth, RpcWaitMined tx])
         else ((Some tx, None),
               [RpcNetworkID, RpcSuggestGasPrice,
                RpcTransact (tokenAddress bs) method params auth, RpcWaitMined tx,
                Infof ''Transaction %s completed successfully (block %d)'' tx receipt]))))))"

text \<open>
  \<^verbatim>\<open>AddToWhitelist\<close> and \<^verbatim>\<open>RemoveFromWhitelist\<close>. The loop that fills \<^verbatim>\<open>addrs\<close> writes
  \<^verbatim>\<open>HexToAddress(addresses[i])\<close> at index \<open>i\<close> for every \<open>i\<close>: it is \<open>map\<close>.
\<close>

definition AddToWhitelist ::
  "BlockchainService \<Rightarrow> chain \<Rightarrow> string list \<Rightarrow>
     (Transaction option \<times> error option) \<times> effect list" where
  "AddToWhitelist bs ch addresses =
    (if privateKey bs = None then ((None, Some (Errorf ''private key not set'')), [])
     else if length addresses = 1
     then (let address = HexToAddress ch (addresses ! 0)
           in executeTokenTransaction bs ch ''updateWhitelist'' [Addr address, Bool True])
     else (let addrs = map (HexToAddress ch) addresses
           in executeTokenTransaction bs ch ''updateWhitelistBatch''
                [AddrSlice addrs, Bool True]))"

definition RemoveFromWhitelist ::
  "BlockchainService \<Rightarrow> chain \<Rightarrow> string list \<Rightarrow>
     (Transaction option \<times> error option) \<times> effect list" where
  "RemoveFromWhitelist bs ch addresses =
    (if privateKey bs = None then ((None, Some (Errorf ''private key not set'')), [])
     else if length addresses = 1
     then (let address = HexToAddress ch (addresses ! 0)
           in executeTokenTransaction bs ch ''updateWhitelist'' [Addr address, Bool False])
     else (let addrs = map (HexToAddress ch) addresses
           in executeTokenTransaction bs ch ''updateWhitelistBatch''
                [AddrSlice addrs, Bool False]))"

definition PauseSale ::
  "BlockchainService \<Rightarrow> chain \<Rightarrow> (Transaction option \<times> error option) \<times> effect list" where
  "PauseSale bs ch =
    (if privateKey bs = None then ((None, Some (Errorf ''private key not set'')), [])
     else executeTransaction bs ch ''pause'' [])"

definition UnpauseSale ::
  "BlockchainService \<Rightarrow> chain \<Rightarrow> (Transaction option \<times> error option) \<times> effect list" where
  "UnpauseSale bs ch =
    (if privateKey bs = None then ((None, Some (Errorf ''private key not set'')), [])
     else executeTransaction bs ch ''unpause'' [])"

section \<open>Purchase events\<close>

text \<open>
  \<^verbatim>\<open>s[lo:hi]\<close> on a byte slice with the given visible bytes and spare capacity: a panic
  unless \<open>lo \<le> hi \<le> cap(s)\<close>; otherwise the bytes \<open>lo..hi-1\<close> of the backing array.
\<close>

definition sliceExpr :: "byte list \<Rightarrow> byte list \<Rightarrow> nat \<Rightarrow> nat \<Rightarrow> byte list outcome" where
  "sliceExpr visible spare lo hi =
    (if lo \<le> hi \<and> hi \<le> length visible + length spare
     then Return (take (hi - lo) (drop lo (visible @ spare)))
     else Panic ''slice bounds out of range'')"

text \<open>
  \<^verbatim>\<open>parsePurchaseEvent\<close>: the fields of the literal are evaluated in order, the indexed
  topic first, then the three 32-byte slots of the data. The error it returns is always nil.
\<close>

definition parsePurchaseEvent ::
  "chain \<Rightarrow> Log \<Rightarrow> (PurchaseEvent option \<times> error option) outcome" where
  "parsePurchaseEvent ch vLog =
    andThen (index (Topics vLog) 1) (\<lambda>topic.
    andThen (sliceExpr (Data vLog) (DataSpare vLog) 0 32) (\<lambda>tokenAmount.
    andThen (sliceExpr (Data vLog) (DataSpare vLog) 32 64) (\<lambda>ethAmount.
    andThen (sliceExpr (Data vLog) (DataSpare vLog) 64 96) (\<lambda>timestamp.
      Return (Some \<lparr>Buyer = BytesToAddress ch topic,
                     TokenAmount = SetBytes ch tokenAmount,
                     EthAmount = SetBytes ch ethAmount,
                     Timestamp = SetBytes ch timestamp,
                     EventTxHash = TxHash vLog,
                     EventBlockNumber = LogBlockNumber vLog\<rparr>, None)))))"

text \<open>
  The consumer's channel \<^verbatim>\<open>eventChan\<close>: the values sent on it so far, and whether it has
  been closed. The forwarding goroutine only ever sends.
\<close>

record Chan =
  sent :: "PurchaseEvent list"
  closed :: bool

definition send :: "Chan \<Rightarrow> PurchaseEvent \<Rightarrow> Chan" where
  "send c v = c\<lparr>sent := sent c @ [v]\<rparr>"

text \<open>
  One iteration of the goroutine's \<^verbatim>\<open>select\<close> takes one of three cases; which one is
  the scheduler's choice, so a run is driven by the list of the cases taken. A received
  log carries the case the inner \<^verbatim>\<open>select\<close> takes if the event gets that far: the
  consumer receives it, or the context is done first.
\<close>

datatype send_case = Sent | SendCtxDone

datatype select_case = SubErr error | LogReceived Log send_case | CtxDone

text \<open>
  How the goroutine stands when the given cases are used up: \<open>Blocked\<close> in the
  \<^verbatim>\<open>select\<close> waiting for more, \<open>Returned\<close>, or dead by a panic.
\<close>

datatype status = Blocked | Returned | Panicked string

fun loop ::
  "chain \<Rightarrow> select_case list \<Rightarrow> Chan \<times> effect list \<Rightarrow> status \<times> Chan \<times> effect list" where
  "loop ch [] (eventChan, lg) = (Blocked, eventChan, lg)"
| "loop ch (SubErr err # rest) (eventChan, lg) =
     (Returned, eventChan, lg @ [Errorf_log ''Subscription error: %v'' err])"
| "loop ch (LogReceived vLog sc # rest) (eventChan, lg) =
     (case parsePurchaseEvent ch vLog of
        Panic p \<Rightarrow> (Panicked p, eventChan, lg)
      | Return (event, Some err) \<Rightarrow>
          loop ch rest (eventChan, lg @ [Errorf_log ''Failed to parse purchase event: %v'' err])
      | Return (None, None) \<Rightarrow> (Panicked ''nil pointer dereference'', eventChan, lg)
      | Return (Some event, None) \<Rightarrow>
          (case sc of
             Sent \<Rightarrow> loop ch rest (send eventChan event, lg)
           | SendCtxDone \<Rightarrow> (Returned, eventChan, lg)))"
| "loop ch (CtxDone # rest) (eventChan, lg) = (Returned, eventChan, lg)"

text \<open>
  The goroutine: the loop, and the deferred \<^verbatim>\<open>sub.Unsubscribe()\<close>, which runs when the
  function returns or panics.
\<close>

record Goroutine =
  exit :: status
  eventChan :: Chan
  logged :: "effect list"
  unsubscribeCalls :: nat

definition forwarder :: "chain \<Rightarrow> select_case list \<Rightarrow> Chan \<Rightarrow> Goroutine" where
  "forwarder ch cases c =
    (case loop ch cases (c, []) of
       (st, c', lg) \<Rightarrow>
         \<lparr>exit = st, eventChan = c', logged = lg,
          unsubscribeCalls = (if st = Blocked then 0 else 1)\<rparr>)"

text \<open>
  \<^verbatim>\<open>WatchPurchaseEvents\<close>: the error it returns, and the goroutine it started, if any.
\<close>

definition WatchPurchaseEvents ::
  "BlockchainService \<Rightarrow> chain \<Rightarrow> select_case list \<Rightarrow> Chan \<Rightarrow> error option \<times> Goroutine option" where
  "WatchPurchaseEvents bs ch cases c =
    (if contractAddress bs = zeroAddress then (Some (Errorf ''contract address not set''), None)
     else case SubscribeFilterLogs ch (contractAddress bs) of
            Some err \<Rightarrow> (Some (Wrapf ''failed to subscribe to logs'' err), None)
          | None \<Rightarrow> (None, Some (forwarder ch cases c)))"

section \<open>Handlers\<close>

text \<open>
  The JSON responses of the three whitelist handlers: \<open>ErrorJSON code msg\<close> is
  \<^verbatim>\<open>c.JSON(code, gin.H{"error": msg})\<close>, \<open>StatusJSON address b\<close> the 200 answer of the
  status read, \<open>MessageJSON msg address\<close> the 200 answer of an update.
\<close>

datatype response = ErrorJSON nat string | StatusJSON string bool | MessageJSON string string

text \<open>
  \<^verbatim>\<open>Handlers.GetWhitelistStatus\<close>. Go's \<^verbatim>\<open>||\<close> evaluates its right operand only when
  the left one is false, so \<^verbatim>\<open>address[:2]\<close> is only taken of a string of 42 bytes.
\<close>

definition Handlers_GetWhitelistStatus ::
  "BlockchainService \<Rightarrow> chain \<Rightarrow> string \<Rightarrow> response outcome \<times> effect list" where
  "Handlers_GetWhitelistStatus bs ch address =
    (if length address \<noteq> 42 then (Return (ErrorJSON 400 ''Invalid Ethereum address format''), [])
     else if take 2 address \<noteq> ''0x''
     then (Return (ErrorJSON 400 ''Invalid Ethereum address format''), [])
     else
      case IsWhitelisted bs ch address [] of
        (Panic p, t) \<Rightarrow> (Panic p, t)
      | (Return (isWhitelisted, Some err), t) \<Rightarrow>
          (Return (ErrorJSON 500 ''Failed to check whitelist status''),
           t @ [Errorf_log ''Failed to check whitelist status'' err])
      | (Return (isWhitelisted, None), t) \<Rightarrow> (Return (StatusJSON address isWhitelisted), t))"

text \<open>
  \<^verbatim>\<open>Handlers.AddToWhitelist\<close> and \<^verbatim>\<open>Handlers.RemoveFromWhitelist\<close>. The argument is
  what \<^verbatim>\<open>ShouldBindJSON\<close> gives: an error, or the \<^verbatim>\<open>Address\<close> field of the body.
\<close>

definition Handlers_AddToWhitelist ::
  "BlockchainService \<Rightarrow> chain \<Rightarrow> error + string \<Rightarrow> response \<times> effect list" where
  "Handlers_AddToWhitelist bs ch req =
    (case req of
       Inl err \<Rightarrow> (ErrorJSON 400 ''Invalid request body'', [])
     | Inr address \<Rightarrow>
        if length address \<noteq> 42 then (ErrorJSON 400 ''Invalid Ethereum address format'', [])
        else if take 2 address \<noteq> ''0x''
        then (ErrorJSON 400 ''Invalid Ethereum address format'', [])
        else
         (case AddToWhitelist bs ch [address] of
           ((tx, Some err), t) \<Rightarrow>
             (ErrorJSON 500 ''Failed to add address to whitelist'',
              t @ [Errorf_log ''Failed to add to whitelist'' err])
         | ((tx, None), t) \<Rightarrow>
             (MessageJSON ''Address added to whitelist successfully'' address, t)))"

definition Handlers_RemoveFromWhitelist ::
  "BlockchainService \<Rightarrow> chain \<Rightarrow> error + string \<Rightarrow> response \<times> effect list" where
  "Handlers_RemoveFromWhitelist bs ch req =
    (case req of
       Inl err \<Rightarrow> (ErrorJSON 400 ''Invalid request body'', [])
     | Inr address \<Rightarrow>
        if length address \<noteq> 42 then (ErrorJSON 400 ''Invalid Ethereum address format'', [])
        else if take 2 address \<noteq> ''0x''
        then (ErrorJSON 400 ''Invalid Ethereum address format'', [])
        else
         (case RemoveFromWhitelist bs ch [address] of
           ((tx, Some err), t) \<Rightarrow>
             (ErrorJSON 500 ''Failed to remove address from whitelist'',
              t @ [Errorf_log ''Failed to remove from whitelist'' err])
         | ((tx, None), t) \<Rightarrow>
             (MessageJSON ''Address removed from whitelist successfully'' address, t)))"

section \<open>A concrete environment\<close>

text \<open>
  The concrete inputs of the examples below need a value for every library function. These
  follow go-ethereum and the Go standard library: \<^verbatim>\<open>common.FromHex\<close> drops a
  \<^verbatim>\<open>0x\<close> prefix, pads an odd number of digits with a leading \<^verbatim>\<open>0\<close> and decodes pairs
  of hex digits up to the first character that is not one; \<^verbatim>\<open>common.BytesToAddress\<close>
  keeps the last 20 bytes, padded with zeros on the left; \<^verbatim>\<open>big.Int.SetBytes\<close> reads an
  unsigned big-endian number; \<^verbatim>\<open>big.Int.Int64\<close> keeps the low 64 bits.
\<close>

definition hexDigit :: "char \<Rightarrow> nat option" where
  "hexDigit c =
    (let n = (of_char c :: nat)
     in if 48 \<le> n \<and> n \<le> 57 then Some (n - 48)
        else if 97 \<le> n \<and> n \<le> 102 then Some (n - 87)
        else if 65 \<le> n \<and> n \<le> 70 then Some (n - 55)
        else None)"

fun Hex2Bytes :: "string \<Rightarrow> byte list" where
  "Hex2Bytes (p # q # rest) =
     (case hexDigit p of
        None \<Rightarrow> []
      | Some a \<Rightarrow> (case hexDigit q of
                     None \<Rightarrow> []
                   | Some b \<Rightarrow> of_nat (16 * a + b) # Hex2Bytes rest))"
| "Hex2Bytes rest = []"

definition FromHex :: "string \<Rightarrow> byte list" where
  "FromHex s =
    (let s1 = (if take 2 s = ''0x'' \<or> take 2 s = ''0X'' then drop 2 s else s);
         s2 = (if odd (length s1) then CHR ''0'' # s1 else s1)
     in Hex2Bytes s2)"

definition geth_BytesToAddress :: "byte list \<Rightarrow> Address" where
  "geth_BytesToAddress b =
    (let b' = (if 20 < length b then drop (length b - 20) b else b)
     in replicate (20 - length b') 0 @ b')"

definition geth_HexToAddress :: "string \<Rightarrow> Address" where
  "geth_HexToAddress s = geth_BytesToAddress (FromHex s)"

definition big_SetBytes :: "byte list \<Rightarrow> int" where
  "big_SetBytes b = foldl (\<lambda>acc x. acc * 256 + uint x) 0 b"

text \<open>
  A node on which every request succeeds: a method that the bound contract's ABI lists is
  answered, any other is refused by the library before anything is sent; a submitted
  transaction is mined with status 1.
  A private key is a number here; the stand-in for \<^verbatim>\<open>crypto.HexToECDSA\<close> accepts 64
  characters and takes the number of bytes they decode to.
\<close>

definition devnetCall :: "Address \<Rightarrow> ABI \<Rightarrow> string \<Rightarrow> val list \<Rightarrow> error + val list" where
  "devnetCall a abi method args =
    (if method \<notin> set abi then Inl (Errorf ''method not found'')
     else if method = ''saleConfig''
     then Inr [BigInt 1000, BigInt 1, BigInt 100, BigInt 1000000,
               BigInt 1700000000, BigInt 1800000000, Bool True]
     else if method = ''isSaleActive'' then Inr [Bool True]
     else if method = ''whitelist'' then Inr [Bool False]
     else Inr [BigInt 0])"

definition devnetTransact ::
  "Address \<Rightarrow> ABI \<Rightarrow> TransactOpts \<Rightarrow> string \<Rightarrow> val list \<Rightarrow> error + Transaction" where
  "devnetTransact a abi auth method params =
    (if method \<notin> set abi then Inl (Errorf ''method not found'')
     else Inr \<lparr>Hash_of = replicate 32 171\<rparr>)"

definition devnet :: chain where
  "devnet =
    \<lparr>Dial = (\<lambda>rpcURL. None),
     NetworkID = Inr 31337,
     SuggestGasPrice = Inr 1000000000,
     NewKeyedTransactorWithChainID =
       (\<lambda>key chainID. Inr \<lparr>From = key, ChainID = chainID, GasLimit = 0, GasPrice = None\<rparr>),
     Call = devnetCall,
     Transact = devnetTransact,
     WaitMined = (\<lambda>tx. Inr \<lparr>Status = 1, BlockNumber = 7\<rparr>),
     SubscribeFilterLogs = (\<lambda>a. None),
     HexToAddress = geth_HexToAddress,
     HexToECDSA = (\<lambda>s. if length s = 64 then Inr (length (FromHex s)) else Inl (Errorf ''invalid length'')),
     BytesToAddress = geth_BytesToAddress,
     SetBytes = big_SetBytes,
     Int64 = word_of_int\<rparr>"


text \<open>
  The service that \<^verbatim>\<open>NewBlockchainService\<close> builds from the two addresses of the README
  and \<^verbatim>\<open>SetPrivateKey\<close> gives a key; the same without a key; and the one built when
  neither address is configured.
\<close>

definition saleAddress :: Address where
  "saleAddress = geth_HexToAddress ''0xe7f1725E7734CE288F8367e1Bb143E90bb3F0512''"

definition tokenContract :: Address where
  "tokenContract = geth_HexToAddress ''0x5FbDB2315678afecb367f032d93F642f64180aa3''"

definition adminService :: BlockchainService where
  "adminService =
    \<lparr>contractAddress = saleAddress, tokenAddress = tokenContract, privateKey = Some 32,
     saleABI = WhitelistSaleABI, tokenABI = WhitelistTokenABI\<rparr>"

definition readOnlyService :: BlockchainService where
  "readOnlyService = adminService\<lparr>privateKey := None\<rparr>"

definition unconfiguredService :: BlockchainService where
  "unconfiguredService = adminService\<lparr>contractAddress := zeroAddress, tokenAddress := zeroAddress\<rparr>"

text \<open>
  Observation of a run: the transactions handed to \<^verbatim>\<open>Transact\<close>, in order, each with
  its target contract, its method and its arguments.
\<close>

definition submitted :: "effect list \<Rightarrow> (Address \<times> string \<times> val list) list" where
  "submitted effects =
    concat (map (\<lambda>e. case e of
                       RpcTransact a method params auth \<Rightarrow> [(a, method, params)]
                     | _ \<Rightarrow> []) effects)"

text \<open>Two address strings for the examples.\<close>

definition alice :: string where
  "alice = ''0x1234567890123456789012345678901234567890''"

definition bob :: string where
  "bob = ''0xf39Fd6e51aad88F6F4ce6aB8827279cffFb92266''"

text \<open>
  Log entries of the sale contract. \<open>purchaseLog\<close> is a complete \<^verbatim>\<open>TokenPurchase\<close>
  entry: the signature topic, the buyer topic, and three 32-byte slots (5 tokens, 2 wei,
  time 9). \<open>noBuyerLog\<close> has the signature topic only, \<open>shortDataLog\<close> has one slot of
  data, and \<open>spareLog\<close> has one slot of data in a buffer whose capacity is three slots.
\<close>

definition eventSignature :: Hash where
  "eventSignature = replicate 32 17"

definition purchaseLog :: Log where
  "purchaseLog =
    \<lparr>Topics = [eventSignature, replicate 12 0 @ geth_HexToAddress alice],
     Data = (replicate 31 0 @ [5]) @ (replicate 31 0 @ [2]) @ (replicate 31 0 @ [9]),
     DataSpare = [],
     TxHash = replicate 32 171,
     LogBlockNumber = 7\<rparr>"

definition noBuyerLog :: Log where
  "noBuyerLog = purchaseLog\<lparr>Topics := [eventSignature]\<rparr>"

definition shortDataLog :: Log where
  "shortDataLog = purchaseLog\<lparr>Data := replicate 31 0 @ [5]\<rparr>"

definition spareLog :: Log where
  "spareLog =
    purchaseLog\<lparr>Data := replicate 31 0 @ [5],
                DataSpare := (replicate 31 0 @ [2]) @ (replicate 31 0 @ [9])\<rparr>"

definition purchase :: PurchaseEvent where
  "purchase =
    \<lparr>Buyer = geth_HexToAddress alice, TokenAmount = 5, EthAmount = 2, Timestamp = 9,
     EventTxHash = replicate 32 171, EventBlockNumber = 7\<rparr>"

definition emptyChan :: Chan where
  "emptyChan = \<lparr>sent = [], closed = False\<rparr>"

text \<open>A string of 42 bytes that starts with \<^verbatim>\<open>0x\<close> and has no hex digit after it.\<close>

definition notHex :: string where
  "notHex = ''0xZZZZZZZZZZZZZZZZZZZZZZZZZZZZZZZZZZZZZZZZ''"


section \<open>Facts about the concrete environment\<close>

lemmas devnet_simps =
  devnet_def devnetCall_def devnetTransact_def adminService_def readOnlyService_def
  unconfiguredService_def WhitelistTokenABI_def WhitelistSaleABI_def

lemma adminService_constructed:
  "NewBlockchainService devnet ''http://localhost:8545''
      ''0xe7f1725E7734CE288F8367e1Bb143E90bb3F0512''
      ''0x5FbDB2315678afecb367f032d93F642f64180aa3'' = (Some readOnlyService, None)"
  by (simp add: NewBlockchainService_def devnet_def readOnlyService_def adminService_def
      saleAddress_def tokenContract_def)

lemma unconfiguredService_constructed:
  "NewBlockchainService devnet ''http://localhost:8545'' [] [] =
     (Some (unconfiguredService\<lparr>privateKey := None\<rparr>), None)"
  by (simp add: NewBlockchainService_def devnet_def unconfiguredService_def adminService_def)

lemma adminService_keyed:
  "SetPrivateKey devnet readOnlyService
     ''ac0974bec39a17e36ba4a6b4d238ff944bacb478cbed5efcae784d7bf4f2ff80'' = (adminService, None)"
  by code_simp

lemma unconfiguredService_keyed:
  "SetPrivateKey devnet (unconfiguredService\<lparr>privateKey := None\<rparr>)
     ''ac0974bec39a17e36ba4a6b4d238ff944bacb478cbed5efcae784d7bf4f2ff80'' =
     (unconfiguredService, None)"
  by code_simp

section \<open>Sale snapshot\<close>

text \<open>
  C1. If any one of the four reads of \<^verbatim>\<open>GetSaleInfo\<close> (sale configuration, total sold,
  total ETH raised, active flag) fails, the operation returns an error and no snapshot:
  the snapshot component of the result is nil, so no partially populated or default-valued
  snapshot is ever returned.
\<close>

theorem GetSaleInfo_all_or_nothing:
  assumes "m \<in> {''saleConfig'', ''totalSold'', ''totalEthRaised'', ''isSaleActive''}"
    and "Call ch (contractAddress bs) (saleABI bs) m [] = Inl e"
  shows "\<exists>err. fst (GetSaleInfo bs ch) = Return (None, Some err)"
  using assms by (auto simp: GetSaleInfo_def callContract_def split: sum.splits)

theorem GetSaleInfo_all_or_nothing_witness:
  "''totalSold'' \<in> {''saleConfig'', ''totalSold'', ''totalEthRaised'', ''isSaleActive''}
   \<and> Call devnet (contractAddress adminService) (saleABI adminService) ''totalSold'' [] =
       Inl (Errorf ''method not found'')
   \<and> (\<exists>err. fst (GetSaleInfo adminService devnet) = Return (None, Some err))"
proof -
  have m: "''totalSold'' \<in> {''saleConfig'', ''totalSold'', ''totalEthRaised'', ''isSaleActive''}"
    by simp
  have failing: "Call devnet (contractAddress adminService) (saleABI adminService)
                   ''totalSold'' [] = Inl (Errorf ''method not found'')"
    by (simp add: devnet_simps)
  from GetSaleInfo_all_or_nothing [OF m failing] m failing show ?thesis
    by blast
qed

text \<open>
  The other direction: a snapshot is returned only when all four reads succeeded, and then
  without an error.
\<close>

lemma GetSaleInfo_snapshot_needs_all_reads:
  assumes "fst (GetSaleInfo bs ch) = Return (Some info, err)"
    and "m \<in> {''saleConfig'', ''totalSold'', ''totalEthRaised'', ''isSaleActive''}"
  shows "\<exists>result. Call ch (contractAddress bs) (saleABI bs) m [] = Inr result"
  using assms
  by (auto simp: GetSaleInfo_def callContract_def split: sum.splits if_splits)

section \<open>Whitelist updates\<close>

lemma submitted_executeTokenTransaction:
  assumes "NetworkID ch = Inr chainID"
    and "NewKeyedTransactorWithChainID ch (privateKey bs) chainID = Inr auth0"
    and "SuggestGasPrice ch = Inr gasPrice"
    and "method \<in> set (tokenABI bs)"
  shows "submitted (snd (executeTokenTransaction bs ch method params)) =
           [(tokenAddress bs, method, params)]"
  using assms
  by (simp add: executeTokenTransaction_def submitted_def Let_def split: sum.splits)

text \<open>
  C3. For a non-empty address list, with a signing key configured and the chain id,
  transactor and gas price obtained: \<^verbatim>\<open>AddToWhitelist\<close> submits exactly one transaction
  to the token contract. With exactly one address it is \<^verbatim>\<open>updateWhitelist\<close> on that
  address; with more than one it is \<^verbatim>\<open>updateWhitelistBatch\<close> on the whole list, converted
  element by element in the caller's order (nothing removed, nothing reordered).
  \<^verbatim>\<open>RemoveFromWhitelist\<close> does the same with the flag \<^verbatim>\<open>false\<close>.
\<close>

theorem whitelist_dispatch:
  assumes "privateKey bs = Some key"
    and "NetworkID ch = Inr chainID"
    and "NewKeyedTransactorWithChainID ch (Some key) chainID = Inr auth0"
    and "SuggestGasPrice ch = Inr gasPrice"
    and "tokenABI bs = WhitelistTokenABI"
    and "addresses \<noteq> []"
  shows "submitted (snd (AddToWhitelist bs ch addresses)) =
           (if length addresses = 1
            then [(tokenAddress bs, ''updateWhitelist'',
                   [Addr (HexToAddress ch (hd addresses)), Bool True])]
            else [(tokenAddress bs, ''updateWhitelistBatch'',
                   [AddrSlice (map (HexToAddress ch) addresses), Bool True])])
       \<and> submitted (snd (RemoveFromWhitelist bs ch addresses)) =
           (if length addresses = 1
            then [(tokenAddress bs, ''updateWhitelist'',
                   [Addr (HexToAddress ch (hd addresses)), Bool False])]
            else [(tokenAddress bs, ''updateWhitelistBatch'',
                   [AddrSlice (map (HexToAddress ch) addresses), Bool False])])"
proof -
  have tr: "NewKeyedTransactorWithChainID ch (privateKey bs) chainID = Inr auth0"
    using assms(1,3) by simp
  have single: "''updateWhitelist'' \<in> set (tokenABI bs)"
    and batch: "''updateWhitelistBatch'' \<in> set (tokenABI bs)"
    using assms(5) by (simp_all add: WhitelistTokenABI_def)
  have hd0: "addresses ! 0 = hd addresses"
    using assms(6) by (simp add: hd_conv_nth)
  show ?thesis
    using assms(1) hd0
      submitted_executeTokenTransaction [OF assms(2) tr assms(4) single]
      submitted_executeTokenTransaction [OF assms(2) tr assms(4) batch]
    by (simp add: AddToWhitelist_def RemoveFromWhitelist_def)
qed

theorem whitelist_dispatch_witness:
  "privateKey adminService = Some 32
   \<and> NetworkID devnet = Inr 31337
   \<and> NewKeyedTransactorWithChainID devnet (Some 32) 31337 =
       Inr \<lparr>From = Some 32, ChainID = 31337, GasLimit = 0, GasPrice = None\<rparr>
   \<and> SuggestGasPrice devnet = Inr 1000000000
   \<and> tokenABI adminService = WhitelistTokenABI
   \<and> submitted (snd (AddToWhitelist adminService devnet [bob, alice, bob])) =
       [(tokenContract, ''updateWhitelistBatch'',
         [AddrSlice [geth_HexToAddress bob, geth_HexToAddress alice, geth_HexToAddress bob],
          Bool True])]
   \<and> submitted (snd (RemoveFromWhitelist adminService devnet [alice])) =
       [(tokenContract, ''updateWhitelist'', [Addr (geth_HexToAddress alice), Bool False])]"
proof -
  have key: "privateKey adminService = Some 32"
    and abi: "tokenABI adminService = WhitelistTokenABI"
    and tok: "tokenAddress adminService = tokenContract"
    by (simp_all add: adminService_def)
  have net: "NetworkID devnet = Inr 31337"
    and tr: "NewKeyedTransactorWithChainID devnet (Some 32) 31337 =
               Inr \<lparr>From = Some 32, ChainID = 31337, GasLimit = 0, GasPrice = None\<rparr>"
    and gas: "SuggestGasPrice devnet = Inr 1000000000"
    and hex: "HexToAddress devnet = geth_HexToAddress"
    by (simp_all add: devnet_def)
  have many: "[bob, alice, bob] \<noteq> []" and one: "[alice] \<noteq> []"
    by simp_all
  from whitelist_dispatch [OF key net tr gas abi many]
    whitelist_dispatch [OF key net tr gas abi one]
    key net tr gas abi tok hex
  show ?thesis by simp
qed

text \<open>
  C9. The empty address list is not rejected: under the same conditions as above,
  \<^verbatim>\<open>AddToWhitelist\<close> and \<^verbatim>\<open>RemoveFromWhitelist\<close> take the batch path and submit one
  \<^verbatim>\<open>updateWhitelistBatch\<close> transaction whose address array is empty.
\<close>

theorem empty_list_takes_batch_path:
  assumes "privateKey bs = Some key"
    and "NetworkID ch = Inr chainID"
    and "NewKeyedTransactorWithChainID ch (Some key) chainID = Inr auth0"
    and "SuggestGasPrice ch = Inr gasPrice"
    and "tokenABI bs = WhitelistTokenABI"
  shows "AddToWhitelist bs ch [] =
           executeTokenTransaction bs ch ''updateWhitelistBatch'' [AddrSlice [], Bool True]
       \<and> submitted (snd (AddToWhitelist bs ch [])) =
           [(tokenAddress bs, ''updateWhitelistBatch'', [AddrSlice [], Bool True])]
       \<and> RemoveFromWhitelist bs ch [] =
           executeTokenTransaction bs ch ''updateWhitelistBatch'' [AddrSlice [], Bool False]
       \<and> submitted (snd (RemoveFromWhitelist bs ch [])) =
           [(tokenAddress bs, ''updateWhitelistBatch'', [AddrSlice [], Bool False])]"
proof -
  have tr: "NewKeyedTransactorWithChainID ch (privateKey bs) chainID = Inr auth0"
    using assms(1,3) by simp
  have batch: "''updateWhitelistBatch'' \<in> set (tokenABI bs)"
    using assms(5) by (simp add: WhitelistTokenABI_def)
  show ?thesis
    using assms(1) submitted_executeTokenTransaction [OF assms(2) tr assms(4) batch]
    by (simp add: AddToWhitelist_def RemoveFromWhitelist_def)
qed

theorem empty_list_takes_batch_path_witness:
  "privateKey adminService = Some 32
   \<and> NetworkID devnet = Inr 31337
   \<and> NewKeyedTransactorWithChainID devnet (Some 32) 31337 =
       Inr \<lparr>From = Some 32, ChainID = 31337, GasLimit = 0, GasPrice = None\<rparr>
   \<and> SuggestGasPrice devnet = Inr 1000000000
   \<and> tokenABI adminService = WhitelistTokenABI
   \<and> submitted (snd (AddToWhitelist adminService devnet [])) =
       [(tokenContract, ''updateWhitelistBatch'', [AddrSlice [], Bool True])]
   \<and> fst (AddToWhitelist adminService devnet []) = (Some \<lparr>Hash_of = replicate 32 171\<rparr>, None)"
proof -
  have key: "privateKey adminService = Some 32"
    and abi: "tokenABI adminService = WhitelistTokenABI"
    and tok: "tokenAddress adminService = tokenContract"
    by (simp_all add: adminService_def)
  have net: "NetworkID devnet = Inr 31337"
    and tr: "NewKeyedTransactorWithChainID devnet (Some 32) 31337 =
               Inr \<lparr>From = Some 32, ChainID = 31337, GasLimit = 0, GasPrice = None\<rparr>"
    and gas: "SuggestGasPrice devnet = Inr 1000000000"
    by (simp_all add: devnet_def)
  have ok: "fst (executeTokenTransaction adminService devnet ''updateWhitelistBatch''
                   [AddrSlice [], Bool True]) = (Some \<lparr>Hash_of = replicate 32 171\<rparr>, None)"
    by (simp add: executeTokenTransaction_def devnet_simps)
  from empty_list_takes_batch_path [OF key net tr gas abi]
  have eq: "AddToWhitelist adminService devnet [] =
              executeTokenTransaction adminService devnet ''updateWhitelistBatch''
                [AddrSlice [], Bool True]"
    and sub: "submitted (snd (AddToWhitelist adminService devnet [])) =
                [(tokenAddress adminService, ''updateWhitelistBatch'', [AddrSlice [], Bool True])]"
    by blast+
  have res: "fst (AddToWhitelist adminService devnet []) =
               (Some \<lparr>Hash_of = replicate 32 171\<rparr>, None)"
    using eq ok by simp
  from key net tr gas abi sub [unfolded tok] res show ?thesis
    by (intro conjI)
qed

section \<open>Read-only mode\<close>

text \<open>
  C6. Without a signing key (\<^verbatim>\<open>privateKey\<close> nil) each of the four state-changing
  operations returns the error \<^verbatim>\<open>private key not set\<close> with no transaction, and does
  nothing else: no request reaches the chain client.
\<close>

theorem no_key_no_transaction:
  assumes "privateKey bs = None"
  shows "AddToWhitelist bs ch addresses = ((None, Some (Errorf ''private key not set'')), [])
       \<and> RemoveFromWhitelist bs ch addresses =
           ((None, Some (Errorf ''private key not set'')), [])
       \<and> PauseSale bs ch = ((None, Some (Errorf ''private key not set'')), [])
       \<and> UnpauseSale bs ch = ((None, Some (Errorf ''private key not set'')), [])"
  using assms
  by (simp add: AddToWhitelist_def RemoveFromWhitelist_def PauseSale_def UnpauseSale_def)

theorem no_key_no_transaction_witness:
  "privateKey readOnlyService = None
   \<and> AddToWhitelist readOnlyService devnet [alice] =
       ((None, Some (Errorf ''private key not set'')), [])
   \<and> PauseSale readOnlyService devnet = ((None, Some (Errorf ''private key not set'')), [])"
proof -
  have h: "privateKey readOnlyService = None"
    by (simp add: readOnlyService_def)
  show ?thesis
    using h no_key_no_transaction [OF h, of devnet "[alice]"] by simp
qed

section \<open>Contracts that are not configured\<close>

text \<open>
  The reads test the address they need before anything else and return without a call to
  the client when it is the zero address.
\<close>

lemma reads_fail_fast_without_address:
  "contractAddress bs = zeroAddress \<Longrightarrow>
     GetSaleInfo bs ch = (Return (None, Some (Errorf ''contract address not set'')), [])"
  "contractAddress bs = zeroAddress \<Longrightarrow>
     WatchPurchaseEvents bs ch cases c = (Some (Errorf ''contract address not set''), None)"
  "tokenAddress bs = zeroAddress \<Longrightarrow>
     IsWhitelisted bs ch userAddress merkleProof =
       (Return (False, Some (Errorf ''token address not set'')), [])"
  by (simp_all add: GetSaleInfo_def WatchPurchaseEvents_def IsWhitelisted_def)

text \<open>
  C5. The claim asks every operation on a contract whose address is unset to fail fast
  without a call or a transaction. The reads do (lemma above); the writes do not test the
  address. On the service built with no address and given a key, \<^verbatim>\<open>AddToWhitelist\<close>,
  \<^verbatim>\<open>RemoveFromWhitelist\<close> and \<^verbatim>\<open>PauseSale\<close> hand a transaction for the zero address to
  the client, and \<^verbatim>\<open>AddToWhitelist\<close> returns success.
\<close>

theorem writes_reach_zero_address:
  "tokenAddress unconfiguredService = zeroAddress
   \<and> contractAddress unconfiguredService = zeroAddress
   \<and> fst (AddToWhitelist unconfiguredService devnet [alice]) =
       (Some \<lparr>Hash_of = replicate 32 171\<rparr>, None)
   \<and> submitted (snd (AddToWhitelist unconfiguredService devnet [alice])) =
       [(zeroAddress, ''updateWhitelist'', [Addr (geth_HexToAddress alice), Bool True])]
   \<and> submitted (snd (RemoveFromWhitelist unconfiguredService devnet [alice, bob])) =
       [(zeroAddress, ''updateWhitelistBatch'',
         [AddrSlice [geth_HexToAddress alice, geth_HexToAddress bob], Bool False])]
   \<and> submitted (snd (PauseSale unconfiguredService devnet)) = [(zeroAddress, ''pause'', [])]"
  by code_simp

section \<open>Receipts\<close>

text \<open>
  A token transaction whose receipt has status 0 is returned together with the error
  \<^verbatim>\<open>transaction failed\<close>. \<^verbatim>\<open>executeTransaction\<close> never waits for a receipt: it
  returns a transaction as soon as the client accepts it, and an error and no transaction
  when the client refuses the method.
\<close>

lemma executeTokenTransaction_reverted:
  assumes "NetworkID ch = Inr chainID"
    and "NewKeyedTransactorWithChainID ch (privateKey bs) chainID = Inr auth0"
    and "SuggestGasPrice ch = Inr gasPrice"
    and "method \<in> set (tokenABI bs)"
    and "Transact ch (tokenAddress bs) (tokenABI bs)
           (auth0\<lparr>GasLimit := 300000, GasPrice := Some gasPrice\<rparr>) method params = Inr tx"
    and "WaitMined ch tx = Inr receipt"
    and "Status receipt = 0"
  shows "fst (executeTokenTransaction bs ch method params) =
           (Some tx, Some (Errorf ''transaction failed''))"
  using assms by (simp add: executeTokenTransaction_def)

lemma executeTransaction_never_waits:
  "RpcWaitMined tx \<notin> set (snd (executeTransaction bs ch method params))"
  by (simp add: executeTransaction_def Let_def split: sum.splits)

lemma executeTransaction_returns_on_submission:
  assumes "NetworkID ch = Inr chainID"
    and "NewKeyedTransactorWithChainID ch (privateKey bs) chainID = Inr auth0"
    and "SuggestGasPrice ch = Inr gasPrice"
    and "Transact ch (contractAddress bs) (saleABI bs)
           (auth0\<lparr>GasLimit := 300000, GasPrice := Some gasPrice\<rparr>) method params = Inr tx"
  shows "fst (executeTransaction bs ch method params) = (Some tx, None)"
  using assms by (simp add: executeTransaction_def)








section \<open>Decoding of purchase events\<close>

text \<open>
  \<^verbatim>\<open>parsePurchaseEvent\<close> never returns an error. A log with two topics and 96 bytes of
  data is decoded; a log with fewer than two topics, or whose data buffer has a capacity
  below 96 bytes, is a panic. When the length is below 96 and the capacity is not, the
  slots are read from behind the end of the data.
\<close>

lemma parsePurchaseEvent_no_error: "parsePurchaseEvent ch vLog \<noteq> Return (event, Some err)"
  by (simp add: parsePurchaseEvent_def andThen_def split: outcome.splits)

lemma parsePurchaseEvent_complete_log:
  assumes "1 < length (Topics vLog)" and "96 \<le> length (Data vLog)"
  shows "parsePurchaseEvent ch vLog =
    Return (Some \<lparr>Buyer = BytesToAddress ch (Topics vLog ! 1),
                   TokenAmount = SetBytes ch (take 32 (Data vLog)),
                   EthAmount = SetBytes ch (take 32 (drop 32 (Data vLog))),
                   Timestamp = SetBytes ch (take 32 (drop 64 (Data vLog))),
                   EventTxHash = TxHash vLog,
                   EventBlockNumber = LogBlockNumber vLog\<rparr>, None)"
  using assms by (simp add: parsePurchaseEvent_def andThen_def index_def sliceExpr_def)

lemma parsePurchaseEvent_short_log:
  assumes "length (Topics vLog) < 2 \<or> length (Data vLog) + length (DataSpare vLog) < 96"
  shows "\<exists>p. parsePurchaseEvent ch vLog = Panic p"
  using assms by (auto simp add: parsePurchaseEvent_def andThen_def index_def sliceExpr_def)

lemma parsePurchaseEvent_reads_spare_capacity:
  "length (Data spareLog) = 32 \<and> parsePurchaseEvent devnet spareLog = Return (Some purchase, None)"
  by code_simp

text \<open>
  C2. The claim asks the decoder to check the length of topics and data before slicing and
  to fail with an error on a short log. \<^verbatim>\<open>parsePurchaseEvent\<close> makes no check: on a log
  without the buyer topic, and on a log with 32 bytes of data, it panics with an index or
  slice bound out of range instead of returning an error.
\<close>

theorem parsePurchaseEvent_panics_on_short_log:
  "parsePurchaseEvent devnet noBuyerLog = Panic ''index out of range''
   \<and> parsePurchaseEvent devnet shortDataLog = Panic ''slice bounds out of range''"
  by code_simp

section \<open>The forwarding goroutine\<close>

lemma loop_closed: "closed (fst (snd (loop ch cases (c, lg)))) = closed c"
proof (induction ch cases "(c, lg)" arbitrary: c lg rule: loop.induct)
  case (3 ch vLog sc rest eventChan lg)
  then show ?case
    by (auto simp: send_def split: outcome.splits option.splits send_case.splits prod.splits)
qed simp_all

lemma loop_append_blocked:
  "loop ch pre s = (Blocked, s') \<Longrightarrow> loop ch (pre @ rest) s = loop ch rest s'"
proof (induction ch pre s rule: loop.induct)
  case (3 ch vLog sc rest' eventChan lg)
  then show ?case
    by (auto split: outcome.splits option.splits send_case.splits prod.splits)
qed simp_all

lemma loop_append_done:
  "fst (loop ch pre s) \<noteq> Blocked \<Longrightarrow> loop ch (pre @ rest) s = loop ch pre s"
proof (induction ch pre s rule: loop.induct)
  case (3 ch vLog sc rest' eventChan lg)
  then show ?case
    by (auto split: outcome.splits option.splits send_case.splits prod.splits)
qed simp_all

lemma forwarder_closed: "closed (eventChan (forwarder ch cases c)) = closed c"
  using loop_closed [of ch cases c "[]"]
  by (auto simp: forwarder_def split: prod.splits)

lemma forwarder_exit_case:
  assumes "exit (forwarder ch pre c) = Blocked"
    and "loop ch (final # rest) (eventChan (forwarder ch pre c), logged (forwarder ch pre c)) = (st, c', lg)"
  shows "forwarder ch (pre @ final # rest) c =
           \<lparr>exit = st, eventChan = c', logged = lg, unsubscribeCalls = (if st = Blocked then 0 else 1)\<rparr>"
proof -
  obtain st0 c0 lg0 where l: "loop ch pre (c, []) = (st0, c0, lg0)"
    by (cases "loop ch pre (c, [])") auto
  with assms(1) have "st0 = Blocked" by (simp add: forwarder_def)
  with l have "loop ch (pre @ final # rest) (c, []) = loop ch (final # rest) (c0, lg0)"
    by (simp add: loop_append_blocked)
  moreover from l have "eventChan (forwarder ch pre c) = c0" "logged (forwarder ch pre c) = lg0"
    by (simp_all add: forwarder_def)
  ultimately show ?thesis using assms(2) by (simp add: forwarder_def)
qed

lemma forwarder_chan_after_exit:
  assumes "\<And>s. fst (snd (loop ch (final # rest) s)) = fst s"
  shows "eventChan (forwarder ch (pre @ final # rest) c) = eventChan (forwarder ch pre c)"
proof (cases "fst (loop ch pre (c, [])) = Blocked")
  case True
  then obtain c0 lg0 where l: "loop ch pre (c, []) = (Blocked, c0, lg0)"
    by (cases "loop ch pre (c, [])") auto
  then have "loop ch (pre @ final # rest) (c, []) = loop ch (final # rest) (c0, lg0)"
    by (simp add: loop_append_blocked)
  with assms [of "(c0, lg0)"] l show ?thesis
    by (auto simp: forwarder_def split: prod.splits)
next
  case False
  then show ?thesis by (simp add: forwarder_def loop_append_done)
qed

lemma forwarder_one_purchase:
  "forwarder devnet [LogReceived purchaseLog Sent] emptyChan =
     \<lparr>exit = Blocked, eventChan = \<lparr>sent = [purchase], closed = False\<rparr>, logged = [],
      unsubscribeCalls = 0\<rparr>"
  by code_simp

text \<open>
  C10. The goroutine never closes the consumer's channel, whatever cases it takes and
  however it ends. After an error of the subscription or the end of the context the channel
  holds exactly what it held before, as it would on a stream that is merely idle. When the
  goroutine is waiting in its \<^verbatim>\<open>select\<close> and the subscription reports an error, it logs
  the error, returns and unsubscribes once; whatever arrives afterwards is not processed
  (there is no new subscription). The end of the context does the same without the log line.
\<close>

theorem subscription_error_is_final:
  "closed (eventChan (forwarder ch cases c)) = closed c
   \<and> eventChan (forwarder ch (pre @ SubErr err # rest) c) = eventChan (forwarder ch pre c)
   \<and> eventChan (forwarder ch (pre @ CtxDone # rest) c) = eventChan (forwarder ch pre c)
   \<and> (exit (forwarder ch pre c) = Blocked \<longrightarrow>
        forwarder ch (pre @ SubErr err # rest) c =
          \<lparr>exit = Returned, eventChan = eventChan (forwarder ch pre c),
           logged = logged (forwarder ch pre c) @ [Errorf_log ''Subscription error: %v'' err],
           unsubscribeCalls = 1\<rparr>
      \<and> forwarder ch (pre @ CtxDone # rest) c =
          \<lparr>exit = Returned, eventChan = eventChan (forwarder ch pre c),
           logged = logged (forwarder ch pre c), unsubscribeCalls = 1\<rparr>)"
proof (intro conjI impI)
  show "closed (eventChan (forwarder ch cases c)) = closed c"
    by (rule forwarder_closed)
  show "eventChan (forwarder ch (pre @ SubErr err # rest) c) = eventChan (forwarder ch pre c)"
    by (rule forwarder_chan_after_exit) auto
  show "eventChan (forwarder ch (pre @ CtxDone # rest) c) = eventChan (forwarder ch pre c)"
    by (rule forwarder_chan_after_exit) auto
next
  assume b: "exit (forwarder ch pre c) = Blocked"
  show "forwarder ch (pre @ SubErr err # rest) c =
          \<lparr>exit = Returned, eventChan = eventChan (forwarder ch pre c),
           logged = logged (forwarder ch pre c) @ [Errorf_log ''Subscription error: %v'' err],
           unsubscribeCalls = 1\<rparr>"
    using forwarder_exit_case [OF b, of "SubErr err" rest] by simp
  show "forwarder ch (pre @ CtxDone # rest) c =
          \<lparr>exit = Returned, eventChan = eventChan (forwarder ch pre c),
           logged = logged (forwarder ch pre c), unsubscribeCalls = 1\<rparr>"
    using forwarder_exit_case [OF b, of CtxDone rest] by simp
qed

theorem subscription_error_is_final_witness:
  "exit (forwarder devnet [LogReceived purchaseLog Sent] emptyChan) = Blocked
   \<and> forwarder devnet
        ([LogReceived purchaseLog Sent] @ SubErr (Errorf ''connection reset'')
           # [LogReceived purchaseLog Sent]) emptyChan =
       \<lparr>exit = Returned, eventChan = \<lparr>sent = [purchase], closed = False\<rparr>,
        logged = [Errorf_log ''Subscription error: %v'' (Errorf ''connection reset'')],
        unsubscribeCalls = 1\<rparr>"
proof -
  have b: "exit (forwarder devnet [LogReceived purchaseLog Sent] emptyChan) = Blocked"
    by (simp add: forwarder_one_purchase)
  from subscription_error_is_final [of devnet "[]" emptyChan "[LogReceived purchaseLog Sent]"
      "Errorf ''connection reset''" "[LogReceived purchaseLog Sent]"] b
  show ?thesis by (simp add: forwarder_one_purchase)
qed

text \<open>
  C7. The claim asks that a log entry that cannot be decoded is logged and skipped, so that
  a malformed entry followed by a well-formed one delivers exactly one event. The loop
  does skip an entry for which \<^verbatim>\<open>parsePurchaseEvent\<close> returns an error, but it never
  returns one: on the entry without a buyer topic it panics, the goroutine dies, and the
  well-formed entry behind it is not delivered. The well-formed entry alone is delivered.
\<close>

theorem malformed_log_kills_forwarder:
  "WatchPurchaseEvents adminService devnet
     [LogReceived noBuyerLog Sent, LogReceived purchaseLog Sent] emptyChan =
     (None, Some \<lparr>exit = Panicked ''index out of range'', eventChan = emptyChan, logged = [],
                  unsubscribeCalls = 1\<rparr>)
   \<and> WatchPurchaseEvents adminService devnet [LogReceived purchaseLog Sent] emptyChan =
     (None, Some \<lparr>exit = Blocked, eventChan = \<lparr>sent = [purchase], closed = False\<rparr>,
                  logged = [], unsubscribeCalls = 0\<rparr>)"
  by code_simp

section \<open>The address check of the handlers\<close>

text \<open>
  The three handlers answer 400 exactly when the address is not 42 bytes long or does not
  start with \<^verbatim>\<open>0x\<close>.
\<close>

lemma handlers_reject_by_length_and_prefix:
  assumes "length address \<noteq> 42 \<or> take 2 address \<noteq> ''0x''"
  shows "Handlers_GetWhitelistStatus bs ch address =
           (Return (ErrorJSON 400 ''Invalid Ethereum address format''), [])"
    and "Handlers_AddToWhitelist bs ch (Inr address) =
           (ErrorJSON 400 ''Invalid Ethereum address format'', [])"
    and "Handlers_RemoveFromWhitelist bs ch (Inr address) =
           (ErrorJSON 400 ''Invalid Ethereum address format'', [])"
  using assms
  by (auto simp: Handlers_GetWhitelistStatus_def Handlers_AddToWhitelist_def
      Handlers_RemoveFromWhitelist_def)

lemma handlers_accept_by_length_and_prefix:
  assumes "length address = 42" and "take 2 address = ''0x''"
  shows "fst (Handlers_GetWhitelistStatus bs ch address) \<noteq>
           Return (ErrorJSON 400 ''Invalid Ethereum address format'')"
    and "fst (Handlers_AddToWhitelist bs ch (Inr address)) \<noteq>
           ErrorJSON 400 ''Invalid Ethereum address format''"
    and "fst (Handlers_RemoveFromWhitelist bs ch (Inr address)) \<noteq>
           ErrorJSON 400 ''Invalid Ethereum address format''"
  using assms
  by (auto simp: Handlers_GetWhitelistStatus_def Handlers_AddToWhitelist_def
      Handlers_RemoveFromWhitelist_def split: prod.splits outcome.splits option.splits)

text \<open>
  C8. The claim asks that an address is accepted only when it is \<^verbatim>\<open>0x\<close> followed by 40
  hexadecimal characters. The handlers test the length and the prefix only: the string
  \<^verbatim>\<open>0x\<close> followed by 40 times \<^verbatim>\<open>Z\<close> is accepted, its whitelist status is read and a
  whitelist update is submitted, both for the zero address that \<^verbatim>\<open>HexToAddress\<close> makes
  of it.
\<close>

theorem non_hex_address_accepted:
  "length notHex = 42
   \<and> Handlers_GetWhitelistStatus adminService devnet notHex =
       (Return (StatusJSON notHex False), [RpcCall tokenContract ''whitelist'' [Addr zeroAddress]])
   \<and> fst (Handlers_AddToWhitelist adminService devnet (Inr notHex)) =
       MessageJSON ''Address added to whitelist successfully'' notHex
   \<and> submitted (snd (Handlers_AddToWhitelist adminService devnet (Inr notHex))) =
       [(tokenContract, ''updateWhitelist'', [Addr zeroAddress, Bool True])]
   \<and> fst (Handlers_RemoveFromWhitelist adminService devnet (Inr notHex)) =
       MessageJSON ''Address removed from whitelist successfully'' notHex"
  by code_simp

end
